theory Spec2Isabelle
  imports Complex_Main
begin

section \<open>Numbers, strings and values of the Python source\<close>

text \<open>
  A Python float is an IEEE 754 double. \<open>fl q\<close> is the double nearest to the rational
  \<open>q\<close>, ties going to the even mantissa: the float literal \<open>0.85\<close> is \<open>fl (85 / 100)\<close>, and
  a float operation is the exact operation followed by \<open>fl\<close>. The exponent range of
  doubles (overflow, subnormal numbers) is not modelled; no number computed here comes near
  its ends. Infinities and NaN, which a float can also be, appear where the source can
  receive them: in the JSON body of a request (\<open>py_value\<close> below).
\<close>

function bit_length :: "int \<Rightarrow> int" where
  "bit_length n = (if n \<le> 0 then 0 else 1 + bit_length (n div 2))"
  by pat_completeness auto
termination
  by (relation "measure nat") auto

function pow2 :: "int \<Rightarrow> rat" where
  "pow2 e = (if e = 0 then 1 else if 0 < e then 2 * pow2 (e - 1) else pow2 (e + 1) / 2)"
  by pat_completeness auto
termination
  by (relation "measure (\<lambda>e. nat \<bar>e\<bar>)") auto

definition round_half_even :: "rat \<Rightarrow> int" where
  "round_half_even x =
     (let m = \<lfloor>x\<rfloor>; r = x - of_int m
      in if r < 1 / 2 then m else if 1 / 2 < r then m + 1 else if even m then m else m + 1)"

definition fl :: "rat \<Rightarrow> rat" where
  \<comment> \<open>\<open>k\<close> or \<open>k - 1\<close> is the binary exponent of \<open>\<bar>q\<bar>\<close>; the mantissa has 53 bits.\<close>
  "fl q =
     (if q = 0 then 0
      else
        (let a = \<bar>q\<bar>;
             nd = quotient_of a;
             k = bit_length (fst nd) - bit_length (snd nd);
             e = (if pow2 k \<le> a then k else k - 1) - 52;
             p = pow2 e
         in sgn q * of_int (round_half_even (a / p)) * p))"

definition py_sum :: "rat list \<Rightarrow> rat" where
  \<comment> \<open>\<open>sum(xs)\<close> on floats: added from the left, from 0, each addition rounded (CPython
      before 3.12; later versions compensate the rounding and may differ in the last bit).\<close>
  "py_sum xs = foldl (\<lambda>acc x. fl (acc + x)) 0 xs"

definition py_int :: "rat \<Rightarrow> int" where
  \<comment> \<open>Python's \<open>int(x)\<close> on a float: truncation towards zero.\<close>
  "py_int q = (if 0 \<le> q then \<lfloor>q\<rfloor> else \<lceil>q\<rceil>)"

definition digit_char :: "nat \<Rightarrow> char" where
  "digit_char d = char_of (48 + d)"

function str_nat :: "nat \<Rightarrow> string" where
  "str_nat n = (if n < 10 then [digit_char n] else str_nat (n div 10) @ [digit_char (n mod 10)])"
  by pat_completeness auto
termination
  by (relation "measure id") auto

datatype error = ValueError string | IntegrityError | ZeroDivisionError | TypeError

definition py_truediv :: "int \<Rightarrow> int \<Rightarrow> error + rat" where
  \<comment> \<open>Python's \<open>a / b\<close> on two ints: raises ZeroDivisionError on a zero divisor, else the
      double nearest to the quotient.\<close>
  "py_truediv a b = (if b = 0 then Inl ZeroDivisionError else Inr (fl (of_int a / of_int b)))"

text \<open>
  A value that \<open>json.loads\<close> can put under a key of a request body: \<open>null\<close>, a boolean, an
  integer, a float (a double, or one of \<open>NaN\<close>, \<open>Infinity\<close>, \<open>-Infinity\<close>, which Python's
  parser accepts), a string, an array or an object. \<open>py_lt v n\<close> and \<open>py_gt v n\<close> are
  \<open>v < n\<close> and \<open>v > n\<close> for an integer literal \<open>n\<close>: a boolean compares as 0 or 1, every
  comparison with NaN is false, and a value that is not a number raises TypeError.
  \<open>py_or\<close> is \<open>or\<close>: the right operand is evaluated only when the left one is false.
\<close>

datatype py_value =
  PyNone | PyBool bool | PyInt int | PyFloat rat | PyNaN | PyInf | PyNegInf
| PyStr string | PyList | PyDict

fun py_lt :: "py_value \<Rightarrow> int \<Rightarrow> error + bool" where
  "py_lt (PyBool b) n = Inr ((if b then 1 else 0) < n)"
| "py_lt (PyInt i) n = Inr (i < n)"
| "py_lt (PyFloat q) n = Inr (q < of_int n)"
| "py_lt PyNaN n = Inr False"
| "py_lt PyInf n = Inr False"
| "py_lt PyNegInf n = Inr True"
| "py_lt PyNone n = Inl TypeError"
| "py_lt (PyStr s) n = Inl TypeError"
| "py_lt PyList n = Inl TypeError"
| "py_lt PyDict n = Inl TypeError"

fun py_gt :: "py_value \<Rightarrow> int \<Rightarrow> error + bool" where
  "py_gt (PyBool b) n = Inr (n < (if b then 1 else 0))"
| "py_gt (PyInt i) n = Inr (n < i)"
| "py_gt (PyFloat q) n = Inr (of_int n < q)"
| "py_gt PyNaN n = Inr False"
| "py_gt PyInf n = Inr True"
| "py_gt PyNegInf n = Inr False"
| "py_gt PyNone n = Inl TypeError"
| "py_gt (PyStr s) n = Inl TypeError"
| "py_gt PyList n = Inl TypeError"
| "py_gt PyDict n = Inl TypeError"

definition py_or :: "error + bool \<Rightarrow> error + bool \<Rightarrow> error + bool" where
  "py_or a b = (case a of Inl err \<Rightarrow> Inl err | Inr True \<Rightarrow> Inr True | Inr False \<Rightarrow> b)"


section \<open>models/dataset.py and models/database.py\<close>

datatype PipelineStage = INGESTED | STORED | REFINING | REFINED | PACKAGED | LISTED | SOLD

fun PipelineStage_value :: "PipelineStage \<Rightarrow> string" where
  "PipelineStage_value INGESTED = ''ingested''"
| "PipelineStage_value STORED = ''stored''"
| "PipelineStage_value REFINING = ''refining''"
| "PipelineStage_value REFINED = ''refined''"
| "PipelineStage_value PACKAGED = ''packaged''"
| "PipelineStage_value LISTED = ''listed''"
| "PipelineStage_value SOLD = ''sold''"

type_synonym score_dict = "(string \<times> rat) list"
type_synonym classification_dict = "(string \<times> (string \<times> rat) list) list"

text \<open>
  The columns of \<open>Dataset\<close> that the refinement and packaging services read or write
  (\<open>updated_at\<close>, which the ORM maintains and no service reads, is left out).
  \<open>stage\<close> is a string column holding \<open>PipelineStage.X.value\<close>.
\<close>

record Dataset =
  ds_id :: string
  ds_created_at :: nat
  source_type :: string
  file_count :: int
  total_size_bytes :: int
  stage :: string
  ds_quality_score :: rat

record RefinementRecord =
  rr_id :: string
  created_at :: nat
  dataset_id :: string
  pipeline_stage :: string
  quality_scores :: score_dict
  overall_quality :: rat
  items_processed :: int
  items_passed :: int
  items_rejected :: int
  classifications :: classification_dict
  duplicates_found :: int
  duplicate_removal_method :: string
  processing_duration_seconds :: "rat option"
  error_log :: "string list"

record quality_metrics_dict =
  qm_overall_score :: rat
  qm_items_included :: int
  qm_quality_breakdown :: score_dict

record manifest_file =
  mf_filename :: string
  mf_size_bytes :: int
  mf_format :: string
  mf_checksum :: string

record manifest_dict =
  mn_total_files :: int
  mn_total_size_bytes :: int
  mn_format_breakdown :: "(string \<times> int) list"
  mn_files :: "manifest_file list"

text \<open>
  The entries of a provenance log: the ingestion entry (timestamp, source type, files
  count), one refinement entry per record (timestamp, pipeline stage, items passed, items
  rejected) and the packaging entry (timestamp). Timestamps stay numbers; the source
  prints them with \<open>isoformat()\<close>.
\<close>

datatype provenance_entry =
  Ingestion nat string int
| Refinement nat string int int
| Packaging nat

record DataPackage =
  pk_id :: string
  pk_created_at :: nat
  source_dataset_id :: string
  pk_name :: string
  pk_description :: string
  pk_version :: string
  items_count :: int
  package_size_bytes :: int
  pk_quality_score :: rat
  quality_metrics :: quality_metrics_dict
  manifest :: manifest_dict
  pk_license_type :: string
  provenance_log :: "provenance_entry list"
  pk_metadata :: "string \<times> classification_dict"
  is_available :: bool
  is_for_sale :: bool

text \<open>
  The database: one list of rows per table, in insertion order. \<open>env\<close> is what a commit
  takes from outside the program: the value of \<open>uuid.uuid4()\<close> for the primary key of the
  inserted row and the reading of \<open>datetime.utcnow()\<close> for its \<open>created_at\<close>.
\<close>

record Database =
  datasets :: "Dataset list"
  refinement_records :: "RefinementRecord list"
  data_packages :: "DataPackage list"

record env =
  uuid4 :: string
  utcnow :: nat

definition Dataset_query_get :: "Database \<Rightarrow> string \<Rightarrow> Dataset option" where
  "Dataset_query_get db i = find (\<lambda>d. ds_id d = i) (datasets db)"

definition filter_by_dataset_id :: "Database \<Rightarrow> string \<Rightarrow> RefinementRecord list" where
  "filter_by_dataset_id db i = filter (\<lambda>r. dataset_id r = i) (refinement_records db)"

definition order_by_created_at :: "RefinementRecord list \<Rightarrow> RefinementRecord list" where
  "order_by_created_at rs = sort_key created_at rs"

definition order_by_created_at_desc :: "RefinementRecord list \<Rightarrow> RefinementRecord list" where
  \<comment> \<open>SQL leaves the order of rows with equal keys open; here, as in SQLite, they stay in
      the order of insertion.\<close>
  "order_by_created_at_desc rs = sort_key (\<lambda>r. - int (created_at r)) rs"

definition first :: "'a list \<Rightarrow> 'a option" where
  "first xs = (case xs of [] \<Rightarrow> None | x # _ \<Rightarrow> Some x)"

definition RefinementRecord_init :: "string \<Rightarrow> string \<Rightarrow> RefinementRecord" where
  \<comment> \<open>\<open>RefinementRecord(dataset_id=..., pipeline_stage=...)\<close>: the other columns hold their
      defaults; \<open>id\<close> and \<open>created_at\<close> are filled in when the row is inserted.\<close>
  "RefinementRecord_init did ps =
     \<lparr>rr_id = [], created_at = 0, dataset_id = did, pipeline_stage = ps,
      quality_scores = [], overall_quality = 0,
      items_processed = 0, items_passed = 0, items_rejected = 0,
      classifications = [], duplicates_found = 0, duplicate_removal_method = [],
      processing_duration_seconds = None, error_log = []\<rparr>"

definition update_dataset :: "Dataset \<Rightarrow> Dataset list \<Rightarrow> Dataset list" where
  "update_dataset d ds = map (\<lambda>x. if ds_id x = ds_id d then d else x) ds"

definition commit_refinement ::
  "env \<Rightarrow> Database \<Rightarrow> Dataset \<Rightarrow> RefinementRecord \<Rightarrow> error + (RefinementRecord \<times> Database)" where
  \<comment> \<open>\<open>db.session.add(record); db.session.commit()\<close>: inserts the record under a fresh
      primary key and writes the modified dataset row; a primary key already in the
      table makes the commit fail and nothing is written.\<close>
  "commit_refinement e db d r =
     (if list_ex (\<lambda>x. rr_id x = uuid4 e) (refinement_records db) then Inl IntegrityError
      else
        (let r' = r\<lparr>rr_id := uuid4 e, created_at := utcnow e\<rparr>
         in Inr (r', db\<lparr>datasets := update_dataset d (datasets db),
                         refinement_records := refinement_records db @ [r']\<rparr>)))"


section \<open>pipeline/quality_scorer.py\<close>

record QualityScorer =
  weights :: score_dict

definition QualityScorer_init :: QualityScorer where
  "QualityScorer_init =
     \<lparr>weights = [(''completeness'', fl (2 / 10)), (''clarity'', fl (25 / 100)),
                 (''relevance'', fl (25 / 100)), (''format_validity'', fl (2 / 10)),
                 (''metadata_quality'', fl (1 / 10))]\<rparr>"

definition score_item :: "QualityScorer \<Rightarrow> string \<Rightarrow> rat" where
  "score_item self item_path = fl (85 / 100)"

definition score_batch :: "QualityScorer \<Rightarrow> string list \<Rightarrow> (string \<times> rat) list" where
  "score_batch self item_paths = map (\<lambda>path. (path, score_item self path)) item_paths"


section \<open>pipeline/deduplicator.py\<close>

record Deduplicator =
  similarity_threshold :: rat

definition Deduplicator_init :: Deduplicator where
  "Deduplicator_init = \<lparr>similarity_threshold = fl (95 / 100)\<rparr>"

record find_duplicates_result =
  duplicate_groups :: "string list list"
  fd_duplicates_found :: int
  method_used :: string

definition find_duplicates :: "Deduplicator \<Rightarrow> string list \<Rightarrow> string \<Rightarrow> find_duplicates_result" where
  "find_duplicates self item_paths method =
     \<lparr>duplicate_groups = [], fd_duplicates_found = 0, method_used = method\<rparr>"

definition calculate_hash :: "Deduplicator \<Rightarrow> string \<Rightarrow> string" where
  "calculate_hash self item_path = ''hash_'' @ item_path"

definition calculate_similarity :: "Deduplicator \<Rightarrow> string \<Rightarrow> string \<Rightarrow> rat" where
  "calculate_similarity self item1_path item2_path = fl (5 / 10)"


section \<open>services/refine_service.py\<close>

record quality_results =
  scores :: score_dict
  overall_score :: rat

record dedup_results =
  dd_duplicates_found :: int
  dd_method :: string
  rejected_items :: "string list"
  dd_similarity_threshold :: rat

definition score_quality :: "Dataset \<Rightarrow> quality_results" where
  "score_quality dataset =
     (let scores = [(''completeness'', fl (85 / 100)), (''clarity'', fl (90 / 100)),
                    (''relevance'', fl (75 / 100)), (''format_validity'', fl (95 / 100)),
                    (''metadata_quality'', fl (65 / 100))];
          overall = fl (py_sum (map snd scores) / fl (of_int (int (length scores))))
      in \<lparr>scores = scores, overall_score = overall\<rparr>)"

definition deduplicate :: "Dataset \<Rightarrow> quality_results \<Rightarrow> dedup_results" where
  "deduplicate dataset quality_results =
     \<lparr>dd_duplicates_found = 0, dd_method = ''hash_and_semantic'', rejected_items = [],
      dd_similarity_threshold = fl (95 / 100)\<rparr>"

definition classify_data :: "Dataset \<Rightarrow> classification_dict" where
  "classify_data dataset =
     [(''languages'', [(''en'', fl (92 / 100)), (''es'', fl (8 / 100))]),
      (''modalities'', [(''text'', fl 1)]),
      (''domains'', [(''general'', fl (7 / 10)), (''technical'', fl (3 / 10))]),
      (''content_types'', [(''conversation'', fl (5 / 10)), (''instructions'', fl (3 / 10)),
                           (''creative'', fl (2 / 10))])]"

definition count_passing_items :: "Dataset \<Rightarrow> py_value \<Rightarrow> string list \<Rightarrow> int" where
  "count_passing_items dataset quality_threshold rejected =
     py_int (fl (fl (of_int (file_count dataset)) * fl (95 / 100)))"

text \<open>
  The body of \<open>refine_dataset\<close> between the lookup of the dataset and the commit, in
  single-assignment form. The result lists the state of the two objects the function
  mutates (the dataset and the record) after each block of the source: the new record,
  stage 1 (quality scoring), stage 2 (deduplication), stage 3 (classification), stage 4
  (filtering and statistics), and the update of the dataset.
\<close>

definition refine_dataset_states ::
  "Dataset \<Rightarrow> string \<Rightarrow> py_value \<Rightarrow> (Dataset \<times> RefinementRecord) list" where
  "refine_dataset_states dataset did quality_threshold =
     (let record0 = RefinementRecord_init did ''full_refinement'';
          quality_results = score_quality dataset;
          record1 = record0\<lparr>quality_scores := scores quality_results,
                            overall_quality := overall_score quality_results\<rparr>;
          dedup_results = deduplicate dataset quality_results;
          record2 = record1\<lparr>duplicates_found := dd_duplicates_found dedup_results,
                            duplicate_removal_method := dd_method dedup_results\<rparr>;
          classification_results = classify_data dataset;
          record3 = record2\<lparr>classifications := classification_results\<rparr>;
          passed_count = count_passing_items dataset quality_threshold (rejected_items dedup_results);
          record4 = record3\<lparr>items_processed := file_count dataset,
                            items_passed := passed_count,
                            items_rejected := file_count dataset - passed_count\<rparr>;
          dataset5 = dataset\<lparr>stage := PipelineStage_value REFINED,
                              ds_quality_score := overall_quality record4\<rparr>
      in [(dataset, record0), (dataset, record1), (dataset, record2), (dataset, record3),
          (dataset, record4), (dataset5, record4)])"

definition refine_dataset ::
  "env \<Rightarrow> Database \<Rightarrow> string \<Rightarrow> py_value \<Rightarrow> error + (RefinementRecord \<times> Database)" where
  "refine_dataset e db did quality_threshold =
     (case Dataset_query_get db did of
        None \<Rightarrow> Inl (ValueError (''Dataset '' @ did @ '' not found''))
      | Some dataset \<Rightarrow>
          (case last (refine_dataset_states dataset did quality_threshold) of
             (dataset', record) \<Rightarrow> commit_refinement e db dataset' record))"

record export_metrics =
  em_quality_scores :: score_dict
  em_classifications :: classification_dict
  em_duplicates_found :: int
  em_method :: string
  em_items_processed :: int
  em_items_passed :: int
  em_items_rejected :: int
  pass_rate :: rat
  duration_seconds :: "rat option"
  timestamp :: nat

definition export_refinement_metrics :: "Database \<Rightarrow> string \<Rightarrow> error + export_metrics option" where
  "export_refinement_metrics db did =
     (case first (order_by_created_at_desc (filter_by_dataset_id db did)) of
        None \<Rightarrow> Inr None
      | Some record \<Rightarrow>
          (case (if items_processed record > 0
                 then (case py_truediv (items_passed record) (items_processed record) of
                         Inl err \<Rightarrow> Inl err
                       | Inr q \<Rightarrow> Inr (fl (q * 100)))
                 else Inr 0) of
             Inl err \<Rightarrow> Inl err
           | Inr rate \<Rightarrow>
               Inr (Some \<lparr>em_quality_scores = quality_scores record,
                          em_classifications = classifications record,
                          em_duplicates_found = duplicates_found record,
                          em_method = duplicate_removal_method record,
                          em_items_processed = items_processed record,
                          em_items_passed = items_passed record,
                          em_items_rejected = items_rejected record,
                          pass_rate = rate,
                          duration_seconds = processing_duration_seconds record,
                          timestamp = created_at record\<rparr>)))"


section \<open>routes/refinement_routes.py\<close>

text \<open>
  A route returns a body and a status: \<open>Inr body\<close> is status 200, \<open>Inl (message, status)\<close>
  an error body. The request body is a JSON object or absent: the argument of the refine
  route is the value under its \<open>quality_threshold\<close> key when there is one, that of the
  deduplication route the value under \<open>method\<close>. The body of a successful refine request
  lists fields of the record. An exception that the route does not catch reaches the
  handler of the application for status 500, which rolls the session back; an exception
  other than \<open>ValueError\<close> caught by the route becomes status 500 with the text \<open>str(e)\<close>,
  stood for by the name of the exception.
\<close>

type_synonym http_error = "string \<times> nat"

definition refine_dataset_route ::
  "env \<Rightarrow> Database \<Rightarrow> string \<Rightarrow> py_value option \<Rightarrow> (http_error + RefinementRecord) \<times> Database" where
  "refine_dataset_route e db did data =
     (case Dataset_query_get db did of
        None \<Rightarrow> (Inl (''Dataset not found'', 404), db)
      | Some dataset \<Rightarrow>
          (let quality_threshold = (case data of None \<Rightarrow> PyFloat (fl (5 / 10)) | Some q \<Rightarrow> q)
           in case py_or (py_lt quality_threshold 0) (py_gt quality_threshold 1) of
                Inl err \<Rightarrow> (Inl (''Internal server error'', 500), db)
              | Inr True \<Rightarrow> (Inl (''Quality threshold must be between 0 and 1'', 400), db)
              | Inr False \<Rightarrow>
                  (case refine_dataset e db did quality_threshold of
                     Inr (record, db') \<Rightarrow> (Inr record, db')
                   | Inl (ValueError msg) \<Rightarrow> (Inl (msg, 400), db)
                   | Inl IntegrityError \<Rightarrow> (Inl (''IntegrityError'', 500), db)
                   | Inl ZeroDivisionError \<Rightarrow> (Inl (''ZeroDivisionError'', 500), db)
                   | Inl TypeError \<Rightarrow> (Inl (''TypeError'', 500), db))))"

definition get_refinement_metrics :: "Database \<Rightarrow> string \<Rightarrow> error + (http_error + export_metrics)" where
  "get_refinement_metrics db did =
     (case export_refinement_metrics db did of
        Inl err \<Rightarrow> Inl err
      | Inr None \<Rightarrow> Inr (Inl (''No refinement records found for dataset'', 404))
      | Inr (Some metrics) \<Rightarrow> Inr (Inr metrics))"

record history_entry =
  h_id :: string
  h_pipeline_stage :: string
  h_overall_quality :: rat
  h_items_processed :: int
  h_items_passed :: int
  h_items_rejected :: int
  h_created_at :: nat

definition history_entry_of :: "RefinementRecord \<Rightarrow> history_entry" where
  "history_entry_of r =
     \<lparr>h_id = rr_id r, h_pipeline_stage = pipeline_stage r, h_overall_quality = overall_quality r,
      h_items_processed = items_processed r, h_items_passed = items_passed r,
      h_items_rejected = items_rejected r, h_created_at = created_at r\<rparr>"

definition get_refinement_history :: "Database \<Rightarrow> string \<Rightarrow> string \<times> history_entry list" where
  "get_refinement_history db did =
     (did, map history_entry_of (order_by_created_at (filter_by_dataset_id db did)))"

record deduplication_response =
  dr_dataset_id :: string
  dr_duplicates_found :: int
  dr_method :: string
  dr_duplicate_groups :: "string list list"

definition deduplication :: "Database \<Rightarrow> string \<Rightarrow> string option \<Rightarrow> http_error + deduplication_response" where
  "deduplication db did data =
     (case Dataset_query_get db did of
        None \<Rightarrow> Inl (''Dataset not found'', 404)
      | Some dataset \<Rightarrow>
          (let method = (case data of None \<Rightarrow> ''hybrid'' | Some m \<Rightarrow> m)
           in if \<not> List.member [''hash'', ''semantic'', ''hybrid''] method
              then Inl (''Invalid deduplication method'', 400)
              else Inr \<lparr>dr_dataset_id = did, dr_duplicates_found = 0, dr_method = method,
                        dr_duplicate_groups = []\<rparr>))"


section \<open>services/package_service.py\<close>

definition generate_manifest :: "Dataset \<Rightarrow> manifest_dict" where
  "generate_manifest dataset =
     \<lparr>mn_total_files = file_count dataset,
      mn_total_size_bytes = total_size_bytes dataset,
      mn_format_breakdown =
        [(''text'', py_int (fl (fl (of_int (file_count dataset)) * fl (5 / 10)))),
         (''images'', py_int (fl (fl (of_int (file_count dataset)) * fl (3 / 10)))),
         (''other'', py_int (fl (fl (of_int (file_count dataset)) * fl (2 / 10))))],
      mn_files =
        map (\<lambda>i. \<lparr>mf_filename = ''file_'' @ str_nat i @ ''.dat'',
                   mf_size_bytes = total_size_bytes dataset div max 1 (file_count dataset),
                   mf_format = ''binary'',
                   mf_checksum = concat (replicate 8 (''sha256_'' @ str_nat i))\<rparr>)
            [0 ..< nat (min 5 (file_count dataset))]\<rparr>"

definition generate_provenance_log :: "nat \<Rightarrow> Database \<Rightarrow> Dataset \<Rightarrow> provenance_entry list" where
  \<comment> \<open>\<open>now\<close> is the reading of \<open>datetime.utcnow()\<close> for the packaging entry.\<close>
  "generate_provenance_log now db dataset =
     [Ingestion (ds_created_at dataset) (source_type dataset) (file_count dataset)]
     @ map (\<lambda>record. Refinement (created_at record) (pipeline_stage record)
                                 (items_passed record) (items_rejected record))
           (order_by_created_at (filter_by_dataset_id db (ds_id dataset)))
     @ [Packaging now]"

definition create_package ::
  "env \<Rightarrow> nat \<Rightarrow> Database \<Rightarrow> string \<Rightarrow> string \<Rightarrow> string \<Rightarrow> string \<Rightarrow> string
     \<Rightarrow> error + (DataPackage \<times> Database)" where
  "create_package e now db did name description version license_type =
     (case Dataset_query_get db did of
        None \<Rightarrow> Inl (ValueError (''Dataset '' @ did @ '' not found''))
      | Some dataset \<Rightarrow>
          if stage dataset \<noteq> PipelineStage_value REFINED
          then Inl (ValueError (''Dataset must be refined before packaging. Current stage: '' @ stage dataset))
          else
            (let latest_refinement = first (order_by_created_at_desc (filter_by_dataset_id db did));
                 manifest = generate_manifest dataset;
                 quality_metrics =
                   \<lparr>qm_overall_score = (case latest_refinement of Some r \<Rightarrow> overall_quality r
                                          | None \<Rightarrow> ds_quality_score dataset),
                    qm_items_included = (case latest_refinement of Some r \<Rightarrow> items_passed r
                                          | None \<Rightarrow> file_count dataset),
                    qm_quality_breakdown = (case latest_refinement of Some r \<Rightarrow> quality_scores r
                                             | None \<Rightarrow> [])\<rparr>;
                 provenance = generate_provenance_log now db dataset;
                 package =
                   \<lparr>pk_id = uuid4 e, pk_created_at = utcnow e,
                    source_dataset_id = did, pk_name = name, pk_description = description,
                    pk_version = version,
                    items_count = (case latest_refinement of Some r \<Rightarrow> items_passed r
                                    | None \<Rightarrow> file_count dataset),
                    package_size_bytes = total_size_bytes dataset,
                    pk_quality_score = (case latest_refinement of Some r \<Rightarrow> overall_quality r
                                         | None \<Rightarrow> ds_quality_score dataset),
                    quality_metrics = quality_metrics,
                    manifest = manifest,
                    pk_license_type = license_type,
                    provenance_log = provenance,
                    pk_metadata = (source_type dataset,
                                   (case latest_refinement of Some r \<Rightarrow> classifications r | None \<Rightarrow> [])),
                    is_available = True, is_for_sale = False\<rparr>
             in if list_ex (\<lambda>x. pk_id x = uuid4 e) (data_packages db) then Inl IntegrityError
                else Inr (package,
                          db\<lparr>data_packages := data_packages db @ [package],
                             datasets := update_dataset (dataset\<lparr>stage := PipelineStage_value PACKAGED\<rparr>)
                                           (datasets db)\<rparr>)))"


section \<open>The contract of the specification, in its own words\<close>

text \<open>
  The aggregate of the specification: the sum over the dimensions of score times weight,
  the weight looked up by the name of the dimension.
\<close>

definition spec_weighted_sum :: "score_dict \<Rightarrow> score_dict \<Rightarrow> rat" where
  "spec_weighted_sum ws dims =
     sum_list (map (\<lambda>(k, v). (case map_of ws k of None \<Rightarrow> 0 | Some w \<Rightarrow> v * w)) dims)"

text \<open>
  The filter of the specification: an item is rejected when its quality score is below
  the threshold or deduplication marked it; the passed items are the others.
\<close>

definition spec_rejected :: "(string \<Rightarrow> rat) \<Rightarrow> rat \<Rightarrow> string list \<Rightarrow> string \<Rightarrow> bool" where
  "spec_rejected score quality_threshold rejected item =
     (score item < quality_threshold \<or> List.member rejected item)"

definition spec_items_passed :: "(string \<Rightarrow> rat) \<Rightarrow> rat \<Rightarrow> string list \<Rightarrow> string list \<Rightarrow> int" where
  "spec_items_passed score quality_threshold rejected items =
     int (length (filter (\<lambda>item. \<not> spec_rejected score quality_threshold rejected item) items))"


text \<open>
  A threshold outside [0,1], for the numbers that are ordered: an integer or a float below
  0 or above 1, or an infinity.
\<close>

fun spec_number_outside_0_1 :: "py_value \<Rightarrow> bool" where
  "spec_number_outside_0_1 (PyInt i) = (i < 0 \<or> 1 < i)"
| "spec_number_outside_0_1 (PyFloat q) = (q < 0 \<or> 1 < q)"
| "spec_number_outside_0_1 PyInf = True"
| "spec_number_outside_0_1 PyNegInf = True"
| "spec_number_outside_0_1 v = False"


section \<open>A small database for concrete runs\<close>

text \<open>
  Two stored datasets, one of a hundred files and one of none, and the records and
  databases that refinement runs on them leave behind. \<open>overall1\<close> is the double that
  Python prints as 0.8200000000000001.
\<close>

definition d1 :: Dataset where
  "d1 = \<lparr>ds_id = ''d1'', ds_created_at = 10, source_type = ''crowd'', file_count = 100,
         total_size_bytes = 4096, stage = ''stored'', ds_quality_score = 0\<rparr>"

definition d2 :: Dataset where
  "d2 = \<lparr>ds_id = ''d2'', ds_created_at = 11, source_type = ''university'', file_count = 0,
         total_size_bytes = 0, stage = ''stored'', ds_quality_score = 0\<rparr>"

definition db0 :: Database where
  "db0 = \<lparr>datasets = [d1, d2], refinement_records = [], data_packages = []\<rparr>"

definition e1 :: env where
  "e1 = \<lparr>uuid4 = ''r1'', utcnow = 20\<rparr>"

definition e2 :: env where
  "e2 = \<lparr>uuid4 = ''r2'', utcnow = 30\<rparr>"

definition e2_back :: env where
  \<comment> \<open>The second commit under a clock that was set back after the first.\<close>
  "e2_back = \<lparr>uuid4 = ''r2'', utcnow = 19\<rparr>"

definition overall1 :: rat where
  "overall1 = 3692951694443807 / 4503599627370496"

definition rec1 :: RefinementRecord where
  "rec1 =
     \<lparr>rr_id = ''r1'', created_at = 20, dataset_id = ''d1'', pipeline_stage = ''full_refinement'',
      quality_scores = [(''completeness'', fl (85 / 100)), (''clarity'', fl (90 / 100)),
                        (''relevance'', fl (75 / 100)), (''format_validity'', fl (95 / 100)),
                        (''metadata_quality'', fl (65 / 100))],
      overall_quality = overall1,
      items_processed = 100, items_passed = 95, items_rejected = 5,
      classifications =
        [(''languages'', [(''en'', fl (92 / 100)), (''es'', fl (8 / 100))]),
         (''modalities'', [(''text'', fl 1)]),
         (''domains'', [(''general'', fl (7 / 10)), (''technical'', fl (3 / 10))]),
         (''content_types'', [(''conversation'', fl (5 / 10)), (''instructions'', fl (3 / 10)),
                              (''creative'', fl (2 / 10))])],
      duplicates_found = 0, duplicate_removal_method = ''hash_and_semantic'',
      processing_duration_seconds = None, error_log = []\<rparr>"

definition d1_refined :: Dataset where
  "d1_refined = d1\<lparr>stage := ''refined'', ds_quality_score := overall1\<rparr>"

definition db1 :: Database where
  "db1 = \<lparr>datasets = [d1_refined, d2], refinement_records = [rec1], data_packages = []\<rparr>"

definition rec2 :: RefinementRecord where
  "rec2 = rec1\<lparr>rr_id := ''r2'', created_at := 30\<rparr>"

definition db2 :: Database where
  "db2 = \<lparr>datasets = [d1_refined, d2], refinement_records = [rec1, rec2], data_packages = []\<rparr>"

definition rec2_back :: RefinementRecord where
  "rec2_back = rec1\<lparr>rr_id := ''r2'', created_at := 19\<rparr>"

definition db2_back :: Database where
  "db2_back = \<lparr>datasets = [d1_refined, d2], refinement_records = [rec1, rec2_back], data_packages = []\<rparr>"

definition rec_empty :: RefinementRecord where
  "rec_empty = rec1\<lparr>dataset_id := ''d2'', items_processed := 0, items_passed := 0, items_rejected := 0\<rparr>"

definition db_empty :: Database where
  "db_empty = \<lparr>datasets = [d1, d2\<lparr>stage := ''refined'', ds_quality_score := overall1\<rparr>],
                refinement_records = [rec_empty], data_packages = []\<rparr>"

definition items_of :: "Dataset \<Rightarrow> string list" where
  \<comment> \<open>Names for the files of a dataset, as the manifest of the packaging service writes them.\<close>
  "items_of dataset = map (\<lambda>i. ''file_'' @ str_nat i @ ''.dat'') [0 ..< nat (file_count dataset)]"

text \<open>
  For packaging: the dataset \<open>d1\<close> refined, with two records of which the earlier one,
  from a time when the dataset had forty files, comes second in the table, and the package
  and the database that packaging leaves; and the same dataset refined in a database that
  holds no record of it, with its package.
\<close>

definition rec_first :: RefinementRecord where
  "rec_first = rec1\<lparr>rr_id := ''r0'', created_at := 15, items_processed := 40, items_passed := 38,
                     items_rejected := 2\<rparr>"

definition db_pk :: Database where
  "db_pk = \<lparr>datasets = [d1_refined, d2], refinement_records = [rec1, rec_first], data_packages = []\<rparr>"

definition e3 :: env where
  "e3 = \<lparr>uuid4 = ''p1'', utcnow = 60\<rparr>"

definition pkg1 :: DataPackage where
  "pkg1 =
     \<lparr>pk_id = ''p1'', pk_created_at = 60, source_dataset_id = ''d1'',
      pk_name = ''pack'', pk_description = ''a package'', pk_version = ''1.0'',
      items_count = 95, package_size_bytes = 4096, pk_quality_score = overall1,
      quality_metrics =
        \<lparr>qm_overall_score = overall1, qm_items_included = 95,
         qm_quality_breakdown = quality_scores rec1\<rparr>,
      manifest =
        \<lparr>mn_total_files = 100, mn_total_size_bytes = 4096,
         mn_format_breakdown = [(''text'', 50), (''images'', 30), (''other'', 20)],
         mn_files =
           [\<lparr>mf_filename = ''file_0.dat'', mf_size_bytes = 40, mf_format = ''binary'',
             mf_checksum = ''sha256_0sha256_0sha256_0sha256_0sha256_0sha256_0sha256_0sha256_0''\<rparr>,
            \<lparr>mf_filename = ''file_1.dat'', mf_size_bytes = 40, mf_format = ''binary'',
             mf_checksum = ''sha256_1sha256_1sha256_1sha256_1sha256_1sha256_1sha256_1sha256_1''\<rparr>,
            \<lparr>mf_filename = ''file_2.dat'', mf_size_bytes = 40, mf_format = ''binary'',
             mf_checksum = ''sha256_2sha256_2sha256_2sha256_2sha256_2sha256_2sha256_2sha256_2''\<rparr>,
            \<lparr>mf_filename = ''file_3.dat'', mf_size_bytes = 40, mf_format = ''binary'',
             mf_checksum = ''sha256_3sha256_3sha256_3sha256_3sha256_3sha256_3sha256_3sha256_3''\<rparr>,
            \<lparr>mf_filename = ''file_4.dat'', mf_size_bytes = 40, mf_format = ''binary'',
             mf_checksum = ''sha256_4sha256_4sha256_4sha256_4sha256_4sha256_4sha256_4sha256_4''\<rparr>]\<rparr>,
      pk_license_type = ''proprietary'',
      provenance_log =
        [Ingestion 10 ''crowd'' 100, Refinement 15 ''full_refinement'' 38 2,
         Refinement 20 ''full_refinement'' 95 5, Packaging 59],
      pk_metadata = (''crowd'', classifications rec1),
      is_available = True, is_for_sale = False\<rparr>"

definition db_pk1 :: Database where
  "db_pk1 = \<lparr>datasets = [d1_refined\<lparr>stage := ''packaged''\<rparr>, d2],
             refinement_records = [rec1, rec_first], data_packages = [pkg1]\<rparr>"

definition db_norec :: Database where
  "db_norec = \<lparr>datasets = [d1_refined, d2], refinement_records = [], data_packages = []\<rparr>"

definition pkg0 :: DataPackage where
  "pkg0 =
     pkg1\<lparr>items_count := 100,
          quality_metrics := \<lparr>qm_overall_score = overall1, qm_items_included = 100,
                              qm_quality_breakdown = []\<rparr>,
          provenance_log := [Ingestion 10 ''crowd'' 100, Packaging 59],
          pk_metadata := (''crowd'', [])\<rparr>"

definition db_norec1 :: Database where
  "db_norec1 = \<lparr>datasets = [d1_refined\<lparr>stage := ''packaged''\<rparr>, d2],
                refinement_records = [], data_packages = [pkg0]\<rparr>"


section \<open>Values of the float computations\<close>

lemma overall_eval:
  "fl (py_sum (map snd [(''completeness'', fl (85 / 100)), (''clarity'', fl (90 / 100)),
                    (''relevance'', fl (75 / 100)), (''format_validity'', fl (95 / 100)),
                    (''metadata_quality'', fl (65 / 100))])
       / fl (of_int (int (length [(''completeness'', fl (85 / 100)), (''clarity'', fl (90 / 100)),
                    (''relevance'', fl (75 / 100)), (''format_validity'', fl (95 / 100)),
                    (''metadata_quality'', fl (65 / 100))])))) = overall1"
  by code_simp

lemma score_quality_value:
  "score_quality dataset = \<lparr>scores = quality_scores rec1, overall_score = overall1\<rparr>"
  unfolding score_quality_def Let_def
  by (simp only: overall_eval rec1_def RefinementRecord.select_convs)

lemma count_passing_items_100:
  assumes "file_count dataset = 100"
  shows "count_passing_items dataset thr rejected = 95"
proof -
  have "py_int (fl (fl (of_int 100) * fl (95 / 100))) = 95" by code_simp
  with assms show ?thesis unfolding count_passing_items_def by simp
qed

lemma count_passing_items_0:
  assumes "file_count dataset = 0"
  shows "count_passing_items dataset thr rejected = 0"
proof -
  have "py_int (fl (fl (of_int 0) * fl (95 / 100))) = 0" by code_simp
  with assms show ?thesis unfolding count_passing_items_def by simp
qed


section \<open>Concrete runs\<close>

lemmas concrete_defs = db0_def d1_def d2_def e1_def e2_def e2_back_def rec1_def rec2_def rec2_back_def
  db1_def db2_def db2_back_def d1_refined_def rec_empty_def db_empty_def

lemmas refine_defs = refine_dataset_def Dataset_query_get_def refine_dataset_states_def
  Let_def score_quality_value deduplicate_def classify_data_def count_passing_items_100
  count_passing_items_0 commit_refinement_def RefinementRecord_init_def update_dataset_def

lemma run1: "refine_dataset e1 db0 ''d1'' (PyFloat (1 / 2)) = Inr (rec1, db1)"
  by (simp add: refine_defs concrete_defs)

lemma run2: "refine_dataset e2 db1 ''d1'' (PyFloat (1 / 2)) = Inr (rec2, db2)"
  by (simp add: refine_defs concrete_defs)

lemma run2_back: "refine_dataset e2_back db1 ''d1'' (PyFloat (1 / 2)) = Inr (rec2_back, db2_back)"
  by (simp add: refine_defs concrete_defs)

lemma run_empty: "refine_dataset e1 db0 ''d2'' (PyFloat (1 / 2)) = Inr (rec_empty, db_empty)"
  by (simp add: refine_defs concrete_defs)

lemma get_d1: "Dataset_query_get db0 ''d1'' = Some d1"
  by (simp add: Dataset_query_get_def db0_def d1_def)


section \<open>What a refinement run commits\<close>

lemma last_refine_dataset_states:
  "last (refine_dataset_states dataset did thr) =
     (dataset\<lparr>stage := ''refined'', ds_quality_score := overall1\<rparr>,
      (RefinementRecord_init did ''full_refinement'')
        \<lparr>quality_scores := quality_scores rec1,
         overall_quality := overall1,
         duplicates_found := 0,
         duplicate_removal_method := ''hash_and_semantic'',
         classifications := classify_data dataset,
         items_processed := file_count dataset,
         items_passed := count_passing_items dataset thr [],
         items_rejected := file_count dataset - count_passing_items dataset thr []\<rparr>)"
  by (simp add: refine_dataset_states_def Let_def score_quality_value deduplicate_def)

lemma refine_dataset_Inr:
  assumes "refine_dataset e db did thr = Inr (record, db')"
  obtains dataset where "Dataset_query_get db did = Some dataset"
    and "\<not> list_ex (\<lambda>x. rr_id x = uuid4 e) (refinement_records db)"
    and "record = (snd (last (refine_dataset_states dataset did thr)))\<lparr>rr_id := uuid4 e, created_at := utcnow e\<rparr>"
    and "db' = db\<lparr>datasets := update_dataset (fst (last (refine_dataset_states dataset did thr))) (datasets db),
                   refinement_records := refinement_records db @ [record]\<rparr>"
  using assms
  by (auto simp: refine_dataset_def commit_refinement_def Let_def split: option.splits prod.splits if_splits)


section \<open>Counts of a refinement record\<close>

text \<open>
  C5. Every record that \<open>refine_dataset\<close> returns has
  \<open>items_passed + items_rejected = items_processed\<close>, and \<open>items_processed\<close> is the
  \<open>file_count\<close> of the dataset at the time of the run.
\<close>

theorem refine_dataset_counts:
  assumes "refine_dataset e db did thr = Inr (record, db')"
      and "Dataset_query_get db did = Some dataset"
  shows "items_passed record + items_rejected record = items_processed record
         \<and> items_processed record = file_count dataset"
  using assms by (elim refine_dataset_Inr) (simp add: last_refine_dataset_states)

theorem refine_dataset_counts_witness:
  "refine_dataset e1 db0 ''d1'' (PyFloat (1 / 2)) = Inr (rec1, db1)
   \<and> Dataset_query_get db0 ''d1'' = Some d1
   \<and> items_passed rec1 + items_rejected rec1 = items_processed rec1
   \<and> items_processed rec1 = file_count d1"
  using refine_dataset_counts [OF run1 get_d1] run1 get_d1 by simp


section \<open>The aggregate quality score\<close>

lemma overall1_not_weighted:
  "\<not> \<bar>overall_quality rec1 - spec_weighted_sum (weights QualityScorer_init) (quality_scores rec1)\<bar>
        \<le> 1 / 10 ^ 9"
  by code_simp

lemma overall1_mean:
  "\<bar>overall1 - sum_list (map snd (quality_scores rec1)) / 5\<bar> \<le> 1 / 10 ^ 9
   \<and> \<bar>overall1 - 82 / 100\<bar> \<le> 1 / 10 ^ 9"
  by code_simp

lemma dimension_names:
  "map fst (quality_scores rec1) =
     [''completeness'', ''clarity'', ''relevance'', ''format_validity'', ''metadata_quality'']"
  by (simp add: rec1_def)

text \<open>
  C1, as the specification states it: the \<open>overall_quality\<close> of the record is the weighted
  sum of the five dimension scores under the weights 0.20, 0.25, 0.25, 0.20, 0.10, within
  1e-9. The run on the dataset \<open>d1\<close> refutes it: the record holds 0.8200000000000001, the
  weighted sum of its scores is 0.8375 up to rounding.
\<close>

theorem overall_quality_not_weighted:
  "refine_dataset e1 db0 ''d1'' (PyFloat (1 / 2)) = Inr (rec1, db1)
   \<and> \<not> \<bar>overall_quality rec1 - spec_weighted_sum (weights QualityScorer_init) (quality_scores rec1)\<bar>
        \<le> 1 / 10 ^ 9"
  using run1 overall1_not_weighted by blast

text \<open>
  C1, amended: the record of every run holds the five dimension scores under their names,
  and its \<open>overall_quality\<close> is, within 1e-9, their unweighted mean (their sum divided by
  five), which is 0.82 within 1e-9.
\<close>

theorem overall_quality_mean:
  assumes "refine_dataset e db did thr = Inr (record, db')"
  shows "map fst (quality_scores record) =
           [''completeness'', ''clarity'', ''relevance'', ''format_validity'', ''metadata_quality'']
         \<and> \<bar>overall_quality record - sum_list (map snd (quality_scores record)) / 5\<bar> \<le> 1 / 10 ^ 9
         \<and> \<bar>overall_quality record - 82 / 100\<bar> \<le> 1 / 10 ^ 9"
proof -
  from assms obtain dataset where
    r: "record = (snd (last (refine_dataset_states dataset did thr)))\<lparr>rr_id := uuid4 e, created_at := utcnow e\<rparr>"
    by (rule refine_dataset_Inr)
  have q: "quality_scores record = quality_scores rec1" and o: "overall_quality record = overall1"
    unfolding r by (simp_all add: last_refine_dataset_states)
  show ?thesis unfolding q o using dimension_names overall1_mean by blast
qed

theorem overall_quality_mean_witness:
  "refine_dataset e1 db0 ''d1'' (PyFloat (1 / 2)) = Inr (rec1, db1)
   \<and> map fst (quality_scores rec1) =
           [''completeness'', ''clarity'', ''relevance'', ''format_validity'', ''metadata_quality'']
   \<and> \<bar>overall_quality rec1 - sum_list (map snd (quality_scores rec1)) / 5\<bar> \<le> 1 / 10 ^ 9
   \<and> \<bar>overall_quality rec1 - 82 / 100\<bar> \<le> 1 / 10 ^ 9"
  using overall_quality_mean [OF run1] run1 by blast


section \<open>The count of passing items\<close>

lemma spec_items_passed_all:
  "list_all (\<lambda>i. thr \<le> score i) items \<Longrightarrow> spec_items_passed score thr [] items = int (length items)"
  by (induction items) (auto simp: spec_items_passed_def spec_rejected_def)

lemma score_item_above_half: "1 / 2 \<le> score_item self item"
proof -
  have "(1 / 2 :: rat) \<le> fl (85 / 100)" by code_simp
  then show ?thesis by (simp add: score_item_def)
qed

text \<open>
  C2, on the dataset \<open>d1\<close> of a hundred files with the threshold 0.5: deduplication
  rejects no item and every item scores 0.85, so the filter of the specification passes
  all hundred; the record counts 95 passed and 5 rejected.
\<close>

theorem count_passing_items_ignores_scores:
  "refine_dataset e1 db0 ''d1'' (PyFloat (1 / 2)) = Inr (rec1, db1)
   \<and> items_passed rec1 = 95 \<and> items_rejected rec1 = 5
   \<and> rejected_items (deduplicate d1 (score_quality d1)) = []
   \<and> spec_items_passed (score_item QualityScorer_init) (1 / 2) [] (items_of d1) = 100"
proof -
  have "list_all (\<lambda>i. (1 / 2) \<le> score_item QualityScorer_init i) (items_of d1)"
    unfolding list_all_iff using score_item_above_half by blast
  then have "spec_items_passed (score_item QualityScorer_init) (1 / 2) [] (items_of d1)
               = int (length (items_of d1))"
    by (rule spec_items_passed_all)
  moreover have "length (items_of d1) = 100" by (simp add: items_of_def d1_def)
  ultimately show ?thesis by (simp add: run1 deduplicate_def) (simp add: rec1_def)
qed


section \<open>Failures of a refinement request\<close>

lemma run1_bad_threshold: "refine_dataset e1 db0 ''d1'' (PyFloat (3 / 2)) = Inr (rec1, db1)"
  by (simp add: refine_defs concrete_defs)

lemma get_none: "Dataset_query_get db0 ''nope'' = None"
  by (simp add: Dataset_query_get_def db0_def d1_def d2_def)

text \<open>
  Two requests that the guard of the route lets through or cannot compare: the threshold
  NaN is neither below 0 nor above 1, so the run is committed; a threshold that is not a
  number raises TypeError in the comparison.
\<close>

lemma refine_dataset_route_nan: "refine_dataset_route e1 db0 ''d1'' (Some PyNaN) = (Inr rec1, db1)"
proof -
  have "refine_dataset e1 db0 ''d1'' PyNaN = Inr (rec1, db1)"
    by (simp add: refine_defs concrete_defs)
  then show ?thesis by (simp add: refine_dataset_route_def get_d1 py_or_def)
qed

lemma refine_dataset_route_string:
  "refine_dataset_route e1 db0 ''d1'' (Some (PyStr ''high'')) = (Inl (''Internal server error'', 500), db0)"
  by (simp add: refine_dataset_route_def get_d1 py_or_def)

text \<open>
  C3, as the specification states it: \<open>refine_dataset\<close> fails on a threshold outside
  [0,1] and commits nothing. The service called with the threshold 1.5 on the existing
  dataset \<open>d1\<close> returns a record and a changed database.
\<close>

theorem refine_dataset_accepts_bad_threshold:
  "Dataset_query_get db0 ''d1'' = Some d1 \<and> spec_number_outside_0_1 (PyFloat (3 / 2))
   \<and> refine_dataset e1 db0 ''d1'' (PyFloat (3 / 2)) = Inr (rec1, db1) \<and> db1 \<noteq> db0"
  by (simp add: run1_bad_threshold get_d1) (simp add: db1_def db0_def)

text \<open>
  C3, amended: on an unknown dataset id the service raises \<open>ValueError\<close> (not found) and
  the refine route answers 404; on an existing dataset and a threshold that is a number
  below 0 or above 1 (an integer, a float or an infinity) the route answers 400 before it
  calls the service. In each case the database is the one before the request: a failing
  service returns no database, a failing route returns the one it was given.
\<close>

theorem refine_dataset_failures:
  "(Dataset_query_get db did = None \<longrightarrow>
      refine_dataset e db did thr = Inl (ValueError (''Dataset '' @ did @ '' not found''))
      \<and> refine_dataset_route e db did data = (Inl (''Dataset not found'', 404), db))
   \<and> (Dataset_query_get db did \<noteq> None \<and> spec_number_outside_0_1 thr \<longrightarrow>
      refine_dataset_route e db did (Some thr)
        = (Inl (''Quality threshold must be between 0 and 1'', 400), db))"
proof (intro conjI impI)
  assume "Dataset_query_get db did = None"
  then show "refine_dataset e db did thr = Inl (ValueError (''Dataset '' @ did @ '' not found''))"
    and "refine_dataset_route e db did data = (Inl (''Dataset not found'', 404), db)"
    by (simp_all add: refine_dataset_def refine_dataset_route_def)
next
  assume a: "Dataset_query_get db did \<noteq> None \<and> spec_number_outside_0_1 thr"
  then have "py_or (py_lt thr 0) (py_gt thr 1) = Inr True"
    by (cases thr) (auto simp: py_or_def)
  with a show "refine_dataset_route e db did (Some thr)
        = (Inl (''Quality threshold must be between 0 and 1'', 400), db)"
    by (auto simp: refine_dataset_route_def)
qed

theorem refine_dataset_failures_witness:
  "Dataset_query_get db0 ''nope'' = None
   \<and> refine_dataset e1 db0 ''nope'' (PyFloat (1 / 2)) = Inl (ValueError ''Dataset nope not found'')
   \<and> refine_dataset_route e1 db0 ''nope'' None = (Inl (''Dataset not found'', 404), db0)
   \<and> Dataset_query_get db0 ''d1'' \<noteq> None \<and> spec_number_outside_0_1 (PyFloat (3 / 2))
   \<and> refine_dataset_route e1 db0 ''d1'' (Some (PyFloat (3 / 2)))
        = (Inl (''Quality threshold must be between 0 and 1'', 400), db0)
   \<and> spec_number_outside_0_1 (PyInt (- 1))
   \<and> refine_dataset_route e1 db0 ''d1'' (Some (PyInt (- 1)))
        = (Inl (''Quality threshold must be between 0 and 1'', 400), db0)
   \<and> spec_number_outside_0_1 PyInf
   \<and> refine_dataset_route e1 db0 ''d1'' (Some PyInf)
        = (Inl (''Quality threshold must be between 0 and 1'', 400), db0)"
  using refine_dataset_failures [of db0 "''nope''" e1 "PyFloat (1 / 2)" None]
        refine_dataset_failures [of db0 "''d1''" e1 "PyFloat (3 / 2)" None]
        refine_dataset_failures [of db0 "''d1''" e1 "PyInt (- 1)" None]
        refine_dataset_failures [of db0 "''d1''" e1 PyInf None] get_none get_d1
  by simp


section \<open>The stage of the dataset during and after a run\<close>

lemma find_update_dataset:
  "find (\<lambda>d. ds_id d = i) ds = Some d \<Longrightarrow> ds_id d' = i
   \<Longrightarrow> find (\<lambda>d. ds_id d = i) (update_dataset d' ds) = Some d'"
  by (induction ds) (auto simp: update_dataset_def)

lemma find_ds_id: "find (\<lambda>d. ds_id d = i) ds = Some d \<Longrightarrow> ds_id d = i"
  by (induction ds) (auto split: if_splits)

lemma states_stages:
  "map (stage \<circ> fst) (refine_dataset_states dataset did thr)
           = replicate 5 (stage dataset) @ [PipelineStage_value REFINED]"
  by (simp add: refine_dataset_states_def Let_def numeral_eq_Suc)

lemma get_after_update:
  assumes "Dataset_query_get db did = Some dataset"
  shows "find (\<lambda>x. ds_id x = did) (update_dataset (dataset\<lparr>stage := s, ds_quality_score := q\<rparr>) (datasets db))
          = Some (dataset\<lparr>stage := s, ds_quality_score := q\<rparr>)"
proof -
  from assms have f: "find (\<lambda>x. ds_id x = did) (datasets db) = Some dataset"
    by (simp add: Dataset_query_get_def)
  then have i: "ds_id dataset = did" by (rule find_ds_id)
  show ?thesis by (rule find_update_dataset [OF f]) (simp add: i)
qed

lemma refine_dataset_db:
  assumes "refine_dataset e db did thr = Inr (record, db')"
      and "Dataset_query_get db did = Some dataset"
  shows "db' = db\<lparr>datasets := update_dataset (dataset\<lparr>stage := ''refined'', ds_quality_score := overall1\<rparr>) (datasets db),
                   refinement_records := refinement_records db @ [record]\<rparr>"
proof -
  from assms(1) obtain dataset2 where
        g: "Dataset_query_get db did = Some dataset2"
    and d: "db' = db\<lparr>datasets := update_dataset (fst (last (refine_dataset_states dataset2 did thr))) (datasets db),
                   refinement_records := refinement_records db @ [record]\<rparr>"
    by (rule refine_dataset_Inr)
  from g assms(2) have same: "dataset2 = dataset" by simp
  show ?thesis by (subst d) (simp add: same last_refine_dataset_states)
qed

lemma refine_dataset_overall:
  assumes "refine_dataset e db did thr = Inr (record, db')"
  shows "overall_quality record = overall1"
proof -
  from assms obtain dataset where
    r: "record = (snd (last (refine_dataset_states dataset did thr)))\<lparr>rr_id := uuid4 e, created_at := utcnow e\<rparr>"
    by (rule refine_dataset_Inr)
  show ?thesis unfolding r by (simp add: last_refine_dataset_states)
qed

text \<open>
  C4, as the specification states it: a run first sets the stage of the dataset to
  REFINING, before the quality scorer runs. On the stored dataset \<open>d1\<close> the stage is
  'stored' in every state of the run up to the final update, also in the one the scorer
  starts from; 'refining' is never written.
\<close>

theorem refine_dataset_never_refining:
  "map (stage \<circ> fst) (refine_dataset_states d1 ''d1'' (PyFloat (1 / 2)))
     = [''stored'', ''stored'', ''stored'', ''stored'', ''stored'', ''refined'']
   \<and> PipelineStage_value REFINING \<noteq> stage (fst (hd (refine_dataset_states d1 ''d1'' (PyFloat (1 / 2)))))"
  by (simp add: refine_dataset_states_def Let_def d1_def)

text \<open>
  C4, amended: a run on an existing dataset leaves the stage of the dataset as it found it
  through the record's creation and the four pipeline stages, and writes it once, to
  REFINED, in the final update; after a successful run the dataset in the database has the
  stage REFINED and a \<open>quality_score\<close> equal to the \<open>overall_quality\<close> of the record just
  committed, which is the last record of the table.
\<close>

theorem refine_dataset_stage:
  assumes "Dataset_query_get db did = Some dataset"
      and "refine_dataset e db did thr = Inr (record, db')"
  shows "map (stage \<circ> fst) (refine_dataset_states dataset did thr)
           = replicate 5 (stage dataset) @ [PipelineStage_value REFINED]
         \<and> Dataset_query_get db' did
           = Some (dataset\<lparr>stage := PipelineStage_value REFINED, ds_quality_score := overall_quality record\<rparr>)
         \<and> last (refinement_records db') = record"
proof (intro conjI)
  show "map (stage \<circ> fst) (refine_dataset_states dataset did thr)
           = replicate 5 (stage dataset) @ [PipelineStage_value REFINED]"
    by (rule states_stages)
  note d = refine_dataset_db [OF assms(2) assms(1)]
  have q: "overall_quality record = overall1" by (rule refine_dataset_overall [OF assms(2)])
  have "datasets db' = update_dataset (dataset\<lparr>stage := ''refined'', ds_quality_score := overall1\<rparr>) (datasets db)"
    by (subst d) simp
  then have "Dataset_query_get db' did = Some (dataset\<lparr>stage := ''refined'', ds_quality_score := overall1\<rparr>)"
    by (simp add: Dataset_query_get_def get_after_update [OF assms(1)])
  then show "Dataset_query_get db' did
           = Some (dataset\<lparr>stage := PipelineStage_value REFINED, ds_quality_score := overall_quality record\<rparr>)"
    by (simp add: q)
  show "last (refinement_records db') = record"
    by (subst d) simp
qed

theorem refine_dataset_stage_witness:
  "Dataset_query_get db0 ''d1'' = Some d1
   \<and> refine_dataset e1 db0 ''d1'' (PyFloat (1 / 2)) = Inr (rec1, db1)
   \<and> map (stage \<circ> fst) (refine_dataset_states d1 ''d1'' (PyFloat (1 / 2)))
           = replicate 5 (stage d1) @ [PipelineStage_value REFINED]
   \<and> Dataset_query_get db1 ''d1''
           = Some (d1\<lparr>stage := PipelineStage_value REFINED, ds_quality_score := overall_quality rec1\<rparr>)
   \<and> last (refinement_records db1) = rec1"
  using refine_dataset_stage [OF get_d1 run1] get_d1 run1 by simp


section \<open>Running the refinement twice\<close>

lemma refine_dataset_record:
  assumes "refine_dataset e db did thr = Inr (record, db')"
  shows "rr_id record = uuid4 e \<and> created_at record = utcnow e \<and> dataset_id record = did"
proof -
  from assms obtain dataset where
    r: "record = (snd (last (refine_dataset_states dataset did thr)))\<lparr>rr_id := uuid4 e, created_at := utcnow e\<rparr>"
    by (rule refine_dataset_Inr)
  show ?thesis unfolding r by (simp add: last_refine_dataset_states RefinementRecord_init_def)
qed

lemma refine_dataset_records:
  assumes "refine_dataset e db did thr = Inr (record, db')"
  shows "refinement_records db' = refinement_records db @ [record]
         \<and> \<not> list_ex (\<lambda>x. rr_id x = rr_id record) (refinement_records db)"
proof -
  from assms obtain dataset where
        n: "\<not> list_ex (\<lambda>x. rr_id x = uuid4 e) (refinement_records db)"
    and d: "db' = db\<lparr>datasets := update_dataset (fst (last (refine_dataset_states dataset did thr))) (datasets db),
                   refinement_records := refinement_records db @ [record]\<rparr>"
    by (rule refine_dataset_Inr)
  have "refinement_records db' = refinement_records db @ [record]" by (subst d) simp
  with n refine_dataset_record [OF assms] show ?thesis by simp
qed

lemma history_set:
  "set (snd (get_refinement_history db did))
     = history_entry_of ` {r \<in> set (refinement_records db). dataset_id r = did}"
  by (simp add: get_refinement_history_def order_by_created_at_def filter_by_dataset_id_def)

lemma history_length:
  "length (snd (get_refinement_history db did))
     = length (filter (\<lambda>r. dataset_id r = did) (refinement_records db))"
  by (simp add: get_refinement_history_def order_by_created_at_def filter_by_dataset_id_def)

lemma history_sorted:
  "sorted (map h_created_at (snd (get_refinement_history db did)))"
proof -
  have "map h_created_at (map history_entry_of rs) = map created_at rs" for rs
    by (simp add: history_entry_of_def comp_def)
  then show ?thesis
    by (simp add: get_refinement_history_def order_by_created_at_def del: map_map)
qed

text \<open>
  C6, as the specification states it: of two runs on the same dataset the second is
  timestamped later than the first. The timestamp of a record is the reading of
  \<open>datetime.utcnow()\<close> at its commit. With a clock that was set back between the two
  commits both runs succeed and the second record is timestamped earlier.
\<close>

theorem refine_twice_clock_back:
  "refine_dataset e1 db0 ''d1'' (PyFloat (1 / 2)) = Inr (rec1, db1)
   \<and> refine_dataset e2_back db1 ''d1'' (PyFloat (1 / 2)) = Inr (rec2_back, db2_back)
   \<and> \<not> created_at rec1 < created_at rec2_back"
  by (simp add: run1 run2_back) (simp add: rec1_def rec2_back_def)

text \<open>
  C6, amended: two successful runs of \<open>refine_dataset\<close> on the same dataset, the second on
  the database the first left, add two records. Their primary keys differ. The table after
  the second run is the table before the first with the two records appended, so the
  second run changes no field of the first record. The history route returns, for each of
  the two, an entry with the id, pipeline stage, overall quality, item counts and timestamp
  of the record, two entries more than before the runs, ordered by timestamp. The timestamp
  of each record is the reading of the clock at its commit, so the second is timestamped
  later than the first exactly when the clock reading at the second commit is the later one.
\<close>

theorem refine_twice:
  assumes "refine_dataset ea db did thr = Inr (ra, dba)"
      and "refine_dataset eb dba did thr' = Inr (rb, dbb)"
  shows "rr_id ra \<noteq> rr_id rb \<and> ra \<noteq> rb
       \<and> created_at ra = utcnow ea \<and> created_at rb = utcnow eb
       \<and> (created_at ra < created_at rb \<longleftrightarrow> utcnow ea < utcnow eb)
       \<and> refinement_records dbb = refinement_records db @ [ra, rb]
       \<and> fst (get_refinement_history dbb did) = did
       \<and> \<lparr>h_id = rr_id ra, h_pipeline_stage = pipeline_stage ra, h_overall_quality = overall_quality ra,
           h_items_processed = items_processed ra, h_items_passed = items_passed ra,
           h_items_rejected = items_rejected ra, h_created_at = created_at ra\<rparr>
             \<in> set (snd (get_refinement_history dbb did))
       \<and> \<lparr>h_id = rr_id rb, h_pipeline_stage = pipeline_stage rb, h_overall_quality = overall_quality rb,
           h_items_processed = items_processed rb, h_items_passed = items_passed rb,
           h_items_rejected = items_rejected rb, h_created_at = created_at rb\<rparr>
             \<in> set (snd (get_refinement_history dbb did))
       \<and> length (snd (get_refinement_history dbb did)) = length (snd (get_refinement_history db did)) + 2
       \<and> sorted (map h_created_at (snd (get_refinement_history dbb did)))"
proof -
  note a = refine_dataset_record [OF assms(1)] and b = refine_dataset_record [OF assms(2)]
  note ra = refine_dataset_records [OF assms(1)] and rb = refine_dataset_records [OF assms(2)]
  from ra rb have ids: "rr_id ra \<noteq> rr_id rb" by (auto simp: list_ex_iff)
  then have neq: "ra \<noteq> rb" by auto
  from a b have t: "created_at ra = utcnow ea" "created_at rb = utcnow eb" by simp_all
  then have ti: "created_at ra < created_at rb \<longleftrightarrow> utcnow ea < utcnow eb" by simp
  from ra rb have recs: "refinement_records dbb = refinement_records db @ [ra, rb]" by simp
  have f: "fst (get_refinement_history dbb did) = did" by (simp add: get_refinement_history_def)
  have "ra \<in> {r \<in> set (refinement_records dbb). dataset_id r = did}"
    using a by (simp add: recs)
  then have "history_entry_of ra \<in> set (snd (get_refinement_history dbb did))"
    unfolding history_set by (rule imageI)
  then have ha: "\<lparr>h_id = rr_id ra, h_pipeline_stage = pipeline_stage ra, h_overall_quality = overall_quality ra,
           h_items_processed = items_processed ra, h_items_passed = items_passed ra,
           h_items_rejected = items_rejected ra, h_created_at = created_at ra\<rparr>
             \<in> set (snd (get_refinement_history dbb did))"
    by (simp only: history_entry_of_def)
  have "rb \<in> {r \<in> set (refinement_records dbb). dataset_id r = did}"
    using b by (simp add: recs)
  then have "history_entry_of rb \<in> set (snd (get_refinement_history dbb did))"
    unfolding history_set by (rule imageI)
  then have hb: "\<lparr>h_id = rr_id rb, h_pipeline_stage = pipeline_stage rb, h_overall_quality = overall_quality rb,
           h_items_processed = items_processed rb, h_items_passed = items_passed rb,
           h_items_rejected = items_rejected rb, h_created_at = created_at rb\<rparr>
             \<in> set (snd (get_refinement_history dbb did))"
    by (simp only: history_entry_of_def)
  have l: "length (snd (get_refinement_history dbb did)) = length (snd (get_refinement_history db did)) + 2"
    using a b by (simp add: history_length recs)
  from ids neq t ti recs f ha hb l history_sorted show ?thesis by blast
qed

theorem refine_twice_witness:
  "refine_dataset e1 db0 ''d1'' (PyFloat (1 / 2)) = Inr (rec1, db1)
   \<and> refine_dataset e2 db1 ''d1'' (PyFloat (1 / 2)) = Inr (rec2, db2)
   \<and> rr_id rec1 \<noteq> rr_id rec2 \<and> rec1 \<noteq> rec2
   \<and> created_at rec1 = utcnow e1 \<and> created_at rec2 = utcnow e2
   \<and> (created_at rec1 < created_at rec2 \<longleftrightarrow> utcnow e1 < utcnow e2)
   \<and> refinement_records db2 = refinement_records db0 @ [rec1, rec2]
   \<and> fst (get_refinement_history db2 ''d1'') = ''d1''
   \<and> \<lparr>h_id = rr_id rec1, h_pipeline_stage = pipeline_stage rec1, h_overall_quality = overall_quality rec1,
       h_items_processed = items_processed rec1, h_items_passed = items_passed rec1,
       h_items_rejected = items_rejected rec1, h_created_at = created_at rec1\<rparr>
         \<in> set (snd (get_refinement_history db2 ''d1''))
   \<and> \<lparr>h_id = rr_id rec2, h_pipeline_stage = pipeline_stage rec2, h_overall_quality = overall_quality rec2,
       h_items_processed = items_processed rec2, h_items_passed = items_passed rec2,
       h_items_rejected = items_rejected rec2, h_created_at = created_at rec2\<rparr>
         \<in> set (snd (get_refinement_history db2 ''d1''))
   \<and> length (snd (get_refinement_history db2 ''d1'')) = length (snd (get_refinement_history db0 ''d1'')) + 2
   \<and> sorted (map h_created_at (snd (get_refinement_history db2 ''d1'')))"
  using refine_twice [OF run1 run2] run1 run2 by blast


section \<open>The deduplicator\<close>

text \<open>
  C8, as the specification states it: \<open>find_duplicates\<close> fails on a method outside
  hash, semantic, hybrid. It returns a result for the method 'bogus'.
\<close>

theorem find_duplicates_accepts_any_method:
  "\<not> List.member [''hash'', ''semantic'', ''hybrid''] ''bogus''
   \<and> find_duplicates Deduplicator_init [''a'', ''b''] ''bogus''
       = \<lparr>duplicate_groups = [], fd_duplicates_found = 0, method_used = ''bogus''\<rparr>"
  by (simp add: find_duplicates_def)

text \<open>
  C8, amended: the deduplication route answers 400 'Invalid deduplication method' for an
  existing dataset and a method outside hash, semantic, hybrid (it reads the database and
  writes nothing); \<open>find_duplicates\<close> itself accepts every method and returns no groups,
  naming the method it was given.
\<close>

theorem deduplication_invalid_method:
  assumes "Dataset_query_get db did = Some dataset"
      and "m \<notin> {''hash'', ''semantic'', ''hybrid''}"
  shows "deduplication db did (Some m) = Inl (''Invalid deduplication method'', 400)
         \<and> find_duplicates self items m
             = \<lparr>duplicate_groups = [], fd_duplicates_found = 0, method_used = m\<rparr>"
  using assms by (simp add: deduplication_def find_duplicates_def)

theorem deduplication_invalid_method_witness:
  "Dataset_query_get db0 ''d1'' = Some d1
   \<and> ''bogus'' \<notin> {''hash'', ''semantic'', ''hybrid''}
   \<and> deduplication db0 ''d1'' (Some ''bogus'') = Inl (''Invalid deduplication method'', 400)
   \<and> find_duplicates Deduplicator_init [''a'', ''b''] ''bogus''
             = \<lparr>duplicate_groups = [], fd_duplicates_found = 0, method_used = ''bogus''\<rparr>"
proof -
  have m: "''bogus'' \<notin> {''hash'', ''semantic'', ''hybrid''}" by simp
  from deduplication_invalid_method [OF get_d1 m, of Deduplicator_init "[''a'', ''b'']"] get_d1 m
  show ?thesis by simp
qed

text \<open>
  C9. Hash deduplication returns the same duplicate groups for the same items on every
  call, whatever the state of the deduplicator at the call: the method reads no state and
  writes none.
\<close>

theorem find_duplicates_hash_idempotent:
  "duplicate_groups (find_duplicates self items ''hash'')
     = duplicate_groups (find_duplicates self' items ''hash'')
   \<and> find_duplicates self items ''hash''
     = \<lparr>duplicate_groups = [], fd_duplicates_found = 0, method_used = ''hash''\<rparr>"
  by (simp add: find_duplicates_def)


section \<open>The latest record of a dataset\<close>

lemma first_None: "first xs = None \<longleftrightarrow> xs = []"
  by (cases xs) (simp_all add: first_def)

lemma sort_key_Nil: "sort_key f xs = [] \<longleftrightarrow> xs = []"
  by (metis length_sort length_0_conv)

lemma latest_None:
  "first (order_by_created_at_desc (filter_by_dataset_id db did)) = None
     \<longleftrightarrow> filter_by_dataset_id db did = []"
  by (simp add: first_None order_by_created_at_desc_def sort_key_Nil)

lemma sorted_hd_min:
  "sorted (map f ys) \<Longrightarrow> y \<in> set ys \<Longrightarrow> f (hd ys) \<le> f y"
  by (cases ys) auto

lemma latest_max:
  assumes "xs \<noteq> []"
  shows "\<exists>r. first (order_by_created_at_desc xs) = Some r \<and> r \<in> set xs
             \<and> list_all (\<lambda>r'. created_at r' \<le> created_at r) xs"
proof -
  let ?f = "\<lambda>r. - int (created_at r)"
  let ?ys = "sort_key ?f xs"
  from assms have ne: "?ys \<noteq> []" by (simp add: sort_key_Nil)
  then have f: "first (order_by_created_at_desc xs) = Some (hd ?ys)"
    by (cases ?ys) (simp_all add: first_def order_by_created_at_desc_def)
  from ne have "hd ?ys \<in> set ?ys" by (rule hd_in_set)
  then have m: "hd ?ys \<in> set xs" by simp
  have "created_at y \<le> created_at (hd ?ys)" if "y \<in> set xs" for y
  proof -
    have "?f (hd ?ys) \<le> ?f y"
      using that by (intro sorted_hd_min) simp_all
    then show ?thesis by simp
  qed
  then have "list_all (\<lambda>r'. created_at r' \<le> created_at (hd ?ys)) xs"
    by (simp add: list_all_iff)
  with f m show ?thesis by blast
qed


section \<open>Exporting the metrics of the latest record\<close>

lemma latest_empty: "first (order_by_created_at_desc (filter_by_dataset_id db_empty ''d2'')) = Some rec_empty"
  by (simp add: first_def order_by_created_at_desc_def filter_by_dataset_id_def db_empty_def rec_empty_def rec1_def)

lemma no_records_db0: "filter_by_dataset_id db0 ''d1'' = []"
  by (simp add: filter_by_dataset_id_def db0_def)

text \<open>
  C10. \<open>export_refinement_metrics\<close> always returns: it never raises ZeroDivisionError.
  For a dataset without refinement records it returns None, and when the latest record has
  \<open>items_processed = 0\<close> the \<open>pass_rate\<close> it reports is 0.
\<close>

theorem export_refinement_metrics_total:
  "(\<exists>m. export_refinement_metrics db did = Inr m)
   \<and> (filter_by_dataset_id db did = [] \<longrightarrow> export_refinement_metrics db did = Inr None)
   \<and> (first (order_by_created_at_desc (filter_by_dataset_id db did)) = Some r \<and> items_processed r = 0
        \<longrightarrow> (\<exists>m. export_refinement_metrics db did = Inr (Some m) \<and> pass_rate m = 0))"
proof (intro conjI impI)
  show "\<exists>m. export_refinement_metrics db did = Inr m"
    by (cases "first (order_by_created_at_desc (filter_by_dataset_id db did))")
       (simp_all add: export_refinement_metrics_def py_truediv_def)
next
  assume "filter_by_dataset_id db did = []"
  with latest_None [of db did]
  have "first (order_by_created_at_desc (filter_by_dataset_id db did)) = None"
    by blast
  then show "export_refinement_metrics db did = Inr None"
    by (simp add: export_refinement_metrics_def)
next
  assume "first (order_by_created_at_desc (filter_by_dataset_id db did)) = Some r \<and> items_processed r = 0"
  then show "\<exists>m. export_refinement_metrics db did = Inr (Some m) \<and> pass_rate m = 0"
    by (simp add: export_refinement_metrics_def)
qed

theorem export_refinement_metrics_total_witness:
  "filter_by_dataset_id db0 ''d1'' = [] \<and> export_refinement_metrics db0 ''d1'' = Inr None
   \<and> first (order_by_created_at_desc (filter_by_dataset_id db_empty ''d2'')) = Some rec_empty
   \<and> items_processed rec_empty = 0
   \<and> (\<exists>m. export_refinement_metrics db_empty ''d2'' = Inr (Some m) \<and> pass_rate m = 0)"
proof -
  have z: "items_processed rec_empty = 0" by (simp add: rec_empty_def)
  from export_refinement_metrics_total [of db0 "''d1''" rec_empty]
       export_refinement_metrics_total [of db_empty "''d2''" rec_empty]
       latest_empty no_records_db0 z
  show ?thesis by simp
qed


section \<open>Packaging a refined dataset\<close>

lemma manifest_d1_refined: "generate_manifest d1_refined = manifest pkg1"
  by code_simp

lemma get_d1_refined: "Dataset_query_get db_pk ''d1'' = Some d1_refined"
  by (simp add: Dataset_query_get_def db_pk_def d1_refined_def d1_def)

lemma get_d1_norec: "Dataset_query_get db_norec ''d1'' = Some d1_refined"
  by (simp add: Dataset_query_get_def db_norec_def d1_refined_def d1_def)

lemma records_db_pk: "filter_by_dataset_id db_pk ''d1'' = [rec1, rec_first]"
  by (simp add: filter_by_dataset_id_def db_pk_def rec1_def rec_first_def)

lemma records_db_norec: "filter_by_dataset_id db_norec ''d1'' = []"
  by (simp add: filter_by_dataset_id_def db_norec_def)

lemma package_run:
  "create_package e3 59 db_pk ''d1'' ''pack'' ''a package'' ''1.0'' ''proprietary'' = Inr (pkg1, db_pk1)"
proof -
  have l: "first (order_by_created_at_desc (filter_by_dataset_id db_pk ''d1'')) = Some rec1"
    by (simp add: records_db_pk first_def order_by_created_at_desc_def rec1_def rec_first_def)
  have p: "generate_provenance_log 59 db_pk d1_refined = provenance_log pkg1"
    by (simp add: generate_provenance_log_def order_by_created_at_def records_db_pk
          d1_refined_def d1_def rec1_def rec_first_def pkg1_def)
  have s: "stage d1_refined = ''refined''" by (simp add: d1_refined_def)
  show ?thesis
    by (simp add: create_package_def get_d1_refined Let_def l p manifest_d1_refined s)
       (simp add: pkg1_def db_pk1_def db_pk_def e3_def d1_refined_def d1_def d2_def
          update_dataset_def rec1_def)
qed

lemma package_run_norec:
  "create_package e3 59 db_norec ''d1'' ''pack'' ''a package'' ''1.0'' ''proprietary'' = Inr (pkg0, db_norec1)"
proof -
  have l: "first (order_by_created_at_desc (filter_by_dataset_id db_norec ''d1'')) = None"
    by (simp add: records_db_norec first_def order_by_created_at_desc_def)
  have p: "generate_provenance_log 59 db_norec d1_refined = provenance_log pkg0"
    by (simp add: generate_provenance_log_def order_by_created_at_def records_db_norec
          d1_refined_def d1_def pkg0_def)
  have s: "stage d1_refined = ''refined''" by (simp add: d1_refined_def)
  have m: "manifest pkg1 = manifest pkg0" by (simp add: pkg0_def)
  show ?thesis
    by (simp add: create_package_def get_d1_norec Let_def l p manifest_d1_refined m s)
       (simp add: pkg0_def pkg1_def db_norec1_def db_norec_def e3_def d1_refined_def
          d1_def d2_def update_dataset_def)
qed

lemma package_not_refined:
  "create_package e3 59 db0 ''d1'' ''pack'' ''a package'' ''1.0'' ''proprietary''
     = Inl (ValueError ''Dataset must be refined before packaging. Current stage: stored'')"
  by (simp add: create_package_def Dataset_query_get_def db0_def d1_def)

lemma package_not_found:
  "create_package e3 59 db0 ''nope'' ''pack'' ''a package'' ''1.0'' ''proprietary''
     = Inl (ValueError ''Dataset nope not found'')"
  by (simp add: create_package_def get_none)

lemma refine_dataset_leaves_record:
  assumes "refine_dataset e db did thr = Inr (record, db')"
  shows "filter_by_dataset_id db' did \<noteq> []"
proof -
  from refine_dataset_record [OF assms] refine_dataset_records [OF assms]
  have "record \<in> set (filter_by_dataset_id db' did)"
    by (simp add: filter_by_dataset_id_def)
  then show ?thesis by auto
qed

text \<open>
  C7, as the specification states it: packaging fails with \<open>NotPackageableError\<close> when the
  stage is not REFINED, and a successful packaging reads its quality metrics and item counts
  from the latest record of the dataset. The dataset \<open>d1\<close>, refined, in a database that
  holds no record of it is packaged with success from the row of the dataset: a hundred
  items, its own quality score, no quality breakdown. And the failure on a dataset that is
  not refined is a \<open>ValueError\<close>, the exception that a missing dataset raises too.
\<close>

theorem create_package_without_record:
  "Dataset_query_get db_norec ''d1'' = Some d1_refined
   \<and> stage d1_refined = PipelineStage_value REFINED
   \<and> filter_by_dataset_id db_norec ''d1'' = []
   \<and> create_package e3 59 db_norec ''d1'' ''pack'' ''a package'' ''1.0'' ''proprietary''
       = Inr (pkg0, db_norec1)
   \<and> items_count pkg0 = file_count d1_refined
   \<and> pk_quality_score pkg0 = ds_quality_score d1_refined
   \<and> qm_quality_breakdown (quality_metrics pkg0) = []
   \<and> create_package e3 59 db0 ''d1'' ''pack'' ''a package'' ''1.0'' ''proprietary''
       = Inl (ValueError ''Dataset must be refined before packaging. Current stage: stored'')
   \<and> create_package e3 59 db0 ''nope'' ''pack'' ''a package'' ''1.0'' ''proprietary''
       = Inl (ValueError ''Dataset nope not found'')"
proof -
  have "stage d1_refined = PipelineStage_value REFINED" by (simp add: d1_refined_def)
  moreover have "items_count pkg0 = file_count d1_refined
     \<and> pk_quality_score pkg0 = ds_quality_score d1_refined
     \<and> qm_quality_breakdown (quality_metrics pkg0) = []"
    by (simp add: pkg0_def pkg1_def d1_refined_def d1_def)
  ultimately show ?thesis
    using get_d1_norec records_db_norec package_run_norec package_not_refined package_not_found
    by blast
qed

text \<open>
  C7, amended: for an existing dataset whose stage is not REFINED, \<open>create_package\<close> raises
  \<open>ValueError\<close> ('Dataset must be refined before packaging. Current stage: ...'); for one
  whose stage is REFINED it succeeds when the primary key of the package is fresh. When it
  succeeds, the stage was REFINED, and the quality score, the item count and the quality
  metrics of the package are those of a record of the dataset whose \<open>created_at\<close> no other
  record of the dataset exceeds, when the dataset has a record; when it has none, they are
  the \<open>quality_score\<close> and the \<open>file_count\<close> of the dataset, with an empty breakdown.
\<close>

theorem create_package_contract:
  assumes "Dataset_query_get db did = Some dataset"
  shows "(stage dataset \<noteq> PipelineStage_value REFINED \<longrightarrow>
            create_package e now db did name description version license_type
              = Inl (ValueError (''Dataset must be refined before packaging. Current stage: '' @ stage dataset)))
       \<and> (stage dataset = PipelineStage_value REFINED
            \<and> \<not> list_ex (\<lambda>x. pk_id x = uuid4 e) (data_packages db) \<longrightarrow>
            (\<exists>p d. create_package e now db did name description version license_type = Inr (p, d)))
       \<and> (create_package e now db did name description version license_type = Inr (package, db') \<longrightarrow>
            stage dataset = PipelineStage_value REFINED
            \<and> (filter_by_dataset_id db did = [] \<longrightarrow>
                  pk_quality_score package = ds_quality_score dataset
                  \<and> items_count package = file_count dataset
                  \<and> quality_metrics package
                      = \<lparr>qm_overall_score = ds_quality_score dataset,
                         qm_items_included = file_count dataset, qm_quality_breakdown = []\<rparr>)
            \<and> (filter_by_dataset_id db did \<noteq> [] \<longrightarrow>
                  (\<exists>r. r \<in> set (filter_by_dataset_id db did)
                     \<and> list_all (\<lambda>r'. created_at r' \<le> created_at r) (filter_by_dataset_id db did)
                     \<and> pk_quality_score package = overall_quality r
                     \<and> items_count package = items_passed r
                     \<and> quality_metrics package
                         = \<lparr>qm_overall_score = overall_quality r, qm_items_included = items_passed r,
                            qm_quality_breakdown = quality_scores r\<rparr>)))"
proof (intro conjI impI)
  assume "stage dataset \<noteq> PipelineStage_value REFINED"
  with assms show "create_package e now db did name description version license_type
              = Inl (ValueError (''Dataset must be refined before packaging. Current stage: '' @ stage dataset))"
    by (simp add: create_package_def)
next
  assume "stage dataset = PipelineStage_value REFINED
            \<and> \<not> list_ex (\<lambda>x. pk_id x = uuid4 e) (data_packages db)"
  with assms show "\<exists>p d. create_package e now db did name description version license_type = Inr (p, d)"
    by (simp add: create_package_def Let_def)
next
  assume a: "create_package e now db did name description version license_type = Inr (package, db')"
  with assms show s: "stage dataset = PipelineStage_value REFINED"
    by (auto simp: create_package_def split: if_splits)
  {
    assume n: "filter_by_dataset_id db did = []"
    with latest_None [of db did]
    have f: "first (order_by_created_at_desc (filter_by_dataset_id db did)) = None" by blast
    from a assms s f
    show "pk_quality_score package = ds_quality_score dataset"
     and "items_count package = file_count dataset"
     and "quality_metrics package
            = \<lparr>qm_overall_score = ds_quality_score dataset,
               qm_items_included = file_count dataset, qm_quality_breakdown = []\<rparr>"
      by (auto simp: create_package_def Let_def split: if_splits)
  }
  {
    assume "filter_by_dataset_id db did \<noteq> []"
    then obtain r where f: "first (order_by_created_at_desc (filter_by_dataset_id db did)) = Some r"
      and m: "r \<in> set (filter_by_dataset_id db did)"
      and l: "list_all (\<lambda>r'. created_at r' \<le> created_at r) (filter_by_dataset_id db did)"
      using latest_max by blast
    from a assms s f have
       "pk_quality_score package = overall_quality r \<and> items_count package = items_passed r
        \<and> quality_metrics package
            = \<lparr>qm_overall_score = overall_quality r, qm_items_included = items_passed r,
               qm_quality_breakdown = quality_scores r\<rparr>"
      by (auto simp: create_package_def Let_def split: if_splits)
    with m l show "\<exists>r. r \<in> set (filter_by_dataset_id db did)
                    \<and> list_all (\<lambda>r'. created_at r' \<le> created_at r) (filter_by_dataset_id db did)
                    \<and> pk_quality_score package = overall_quality r
                    \<and> items_count package = items_passed r
                    \<and> quality_metrics package
                        = \<lparr>qm_overall_score = overall_quality r, qm_items_included = items_passed r,
                           qm_quality_breakdown = quality_scores r\<rparr>"
      by blast
  }
qed

theorem create_package_contract_witness:
  "Dataset_query_get db0 ''d1'' = Some d1 \<and> stage d1 \<noteq> PipelineStage_value REFINED
   \<and> create_package e3 59 db0 ''d1'' ''pack'' ''a package'' ''1.0'' ''proprietary''
       = Inl (ValueError ''Dataset must be refined before packaging. Current stage: stored'')
   \<and> Dataset_query_get db_pk ''d1'' = Some d1_refined
   \<and> stage d1_refined = PipelineStage_value REFINED
   \<and> create_package e3 59 db_pk ''d1'' ''pack'' ''a package'' ''1.0'' ''proprietary'' = Inr (pkg1, db_pk1)
   \<and> filter_by_dataset_id db_pk ''d1'' = [rec1, rec_first]
   \<and> created_at rec_first < created_at rec1
   \<and> (\<exists>r. r \<in> set (filter_by_dataset_id db_pk ''d1'')
          \<and> list_all (\<lambda>r'. created_at r' \<le> created_at r) (filter_by_dataset_id db_pk ''d1'')
          \<and> pk_quality_score pkg1 = overall_quality r
          \<and> items_count pkg1 = items_passed r
          \<and> quality_metrics pkg1
              = \<lparr>qm_overall_score = overall_quality r, qm_items_included = items_passed r,
                 qm_quality_breakdown = quality_scores r\<rparr>)
   \<and> items_count pkg1 = items_passed rec1 \<and> items_count pkg1 \<noteq> items_passed rec_first
   \<and> Dataset_query_get db_norec ''d1'' = Some d1_refined
   \<and> filter_by_dataset_id db_norec ''d1'' = []
   \<and> create_package e3 59 db_norec ''d1'' ''pack'' ''a package'' ''1.0'' ''proprietary''
       = Inr (pkg0, db_norec1)
   \<and> pk_quality_score pkg0 = ds_quality_score d1_refined
   \<and> items_count pkg0 = file_count d1_refined
   \<and> quality_metrics pkg0
       = \<lparr>qm_overall_score = ds_quality_score d1_refined,
          qm_items_included = file_count d1_refined, qm_quality_breakdown = []\<rparr>"
proof -
  have s: "stage d1 \<noteq> PipelineStage_value REFINED" by (simp add: d1_def)
  have sr: "stage d1_refined = PipelineStage_value REFINED" by (simp add: d1_refined_def)
  have n: "filter_by_dataset_id db_pk ''d1'' \<noteq> []" by (simp add: records_db_pk)
  have t: "created_at rec_first < created_at rec1" by (simp add: rec_first_def rec1_def)
  have i: "items_count pkg1 = items_passed rec1 \<and> items_count pkg1 \<noteq> items_passed rec_first"
    by (simp add: pkg1_def rec1_def rec_first_def)
  from create_package_contract [OF get_d1, of e3 59 "''pack''" "''a package''" "''1.0''" "''proprietary''" pkg1 db_pk1]
  have a: "create_package e3 59 db0 ''d1'' ''pack'' ''a package'' ''1.0'' ''proprietary''
       = Inl (ValueError ''Dataset must be refined before packaging. Current stage: stored'')"
    using s by (simp add: d1_def)
  from create_package_contract [OF get_d1_refined, of e3 59 "''pack''" "''a package''" "''1.0''" "''proprietary''" pkg1 db_pk1]
       package_run n
  have b: "\<exists>r. r \<in> set (filter_by_dataset_id db_pk ''d1'')
          \<and> list_all (\<lambda>r'. created_at r' \<le> created_at r) (filter_by_dataset_id db_pk ''d1'')
          \<and> pk_quality_score pkg1 = overall_quality r
          \<and> items_count pkg1 = items_passed r
          \<and> quality_metrics pkg1
              = \<lparr>qm_overall_score = overall_quality r, qm_items_included = items_passed r,
                 qm_quality_breakdown = quality_scores r\<rparr>"
    by blast
  from create_package_contract [OF get_d1_norec, of e3 59 "''pack''" "''a package''" "''1.0''" "''proprietary''" pkg0 db_norec1]
       package_run_norec records_db_norec
  have c: "pk_quality_score pkg0 = ds_quality_score d1_refined
   \<and> items_count pkg0 = file_count d1_refined
   \<and> quality_metrics pkg0
       = \<lparr>qm_overall_score = ds_quality_score d1_refined,
          qm_items_included = file_count d1_refined, qm_quality_breakdown = []\<rparr>"
    by blast
  from a b c s sr t i get_d1 get_d1_refined get_d1_norec package_run package_run_norec
       records_db_pk records_db_norec
  show ?thesis by blast
qed

end
